theory Spec2Isabelle
  imports Main
begin

section \<open>The Manager GUI of qudi (gui/manager/managergui.py)\<close>

text \<open>
  The module is a Qt front end. Its own logic is embedded here: widgets are records of
  the texts and children the code reads and writes, a Qt signal emission is an event
  appended to a trace, a Python exception is a value, and a dict is an association list
  in iteration order (its keys are distinct, so iterating over the keys and looking each
  one up is iterating over the pairs).
\<close>

subsection \<open>Exceptions and events\<close>

text \<open>
  A raised Python exception. \<open>except Exception\<close> catches the first kind only; a bare
  \<open>except:\<close> catches both.
\<close>

datatype pyexn =
    ExceptionInst string
  | BaseExceptionOnly string

text \<open>The button a \<open>QMessageBox.question\<close> call returns.\<close>

datatype StandardButton = Yes | No

text \<open>
  What the code sends out: the signals of \<open>ManagerGui\<close> and \<open>ModuleListItem\<close>, the
  calls on the log widget and the error dialog, \<open>getState\<close> calls on a loaded module
  and console output.
\<close>

datatype event =
    sigLoadConfig string bool
  | sigSaveConfig string
  | sigLoadThis string string
  | sigReloadThis string string
  | sigDeactivateThis string string
  | sigCleanupStatus string string
  | getStateCall string string
  | printed pyexn

subsection \<open>Loading a configuration\<close>

text \<open>
  \<open>reloadConfig\<close>: the question dialog gives \<open>reply\<close>, the manager gives
  \<open>configFile\<close>, and the signal is emitted with \<open>restart = (reply == Yes)\<close>.
\<close>

definition reloadConfig :: "StandardButton \<Rightarrow> string \<Rightarrow> event list" where
  "reloadConfig reply configFile =
     (let restart = (reply = Yes) in [sigLoadConfig configFile restart])"

text \<open>
  \<open>getLoadFile\<close>: \<open>filename\<close> is what the file dialog returned (the code compares
  it with the empty string); the question is asked only for a non-empty file name, so
  \<open>reply\<close> is read only there.
\<close>

definition getLoadFile :: "string \<Rightarrow> StandardButton \<Rightarrow> event list" where
  "getLoadFile filename reply =
     (if filename \<noteq> []
      then (let restart = (reply = Yes) in [sigLoadConfig filename restart])
      else [])"

definition getSaveFile :: "string \<Rightarrow> event list" where
  "getSaveFile filename = (if filename \<noteq> [] then [sigSaveConfig filename] else [])"

subsection \<open>Log entries\<close>

text \<open>
  A log entry is a dict; only its key \<open>level\<close> is read. The main window's log widget
  and the error dialog are the lists of the entries handed to them.
\<close>

type_synonym entry = "string \<rightharpoonup> string"

record logstate =
  logwidget :: "entry list"
  errorDialog :: "entry list"

text \<open>
  \<open>handleLogEntry\<close>: \<open>addEntry\<close> comes first, so it has happened when
  \<open>entry['level']\<close> raises KeyError on an entry without that key.
\<close>

definition handleLogEntry :: "logstate \<Rightarrow> entry \<Rightarrow> logstate \<times> pyexn option" where
  "handleLogEntry s entry =
     (let s1 = s\<lparr>logwidget := logwidget s @ [entry]\<rparr> in
      case entry ''level'' of
        None \<Rightarrow> (s1, Some (ExceptionInst ''KeyError''))
      | Some level \<Rightarrow>
          if level = ''error'' \<or> level = ''critical''
          then (s1\<lparr>errorDialog := errorDialog s1 @ [entry]\<rparr>, None)
          else (s1, None))"

subsection \<open>Module list items\<close>

text \<open>
  A \<open>ModuleListItem\<close>: its category and name, the text of its load button and the text
  of its status label.
\<close>

record ModuleListItem =
  base :: string
  name :: string
  loadButton :: string
  statusLabel :: string

text \<open>
  The constructor. The status label's first text comes from the widget's ui file, which
  is a parameter here.
\<close>

definition ModuleListItem_init :: "string \<Rightarrow> string \<Rightarrow> string \<Rightarrow> ModuleListItem" where
  "ModuleListItem_init ui_status basename modulename =
     \<lparr>base = basename, name = modulename,
      loadButton = ''Load '' @ modulename, statusLabel = ui_status\<rparr>"

definition loadButtonClicked :: "ModuleListItem \<Rightarrow> ModuleListItem \<times> event list" where
  "loadButtonClicked w =
     (if base w = ''gui''
      then (w\<lparr>loadButton := ''Show '' @ name w\<rparr>, [sigLoadThis (base w) (name w)])
      else (w, [sigLoadThis (base w) (name w)]))"

definition reloadButtonClicked :: "ModuleListItem \<Rightarrow> ModuleListItem \<times> event list" where
  "reloadButtonClicked w = (w, [sigReloadThis (base w) (name w)])"

definition deactivateButtonClicked :: "ModuleListItem \<Rightarrow> ModuleListItem \<times> event list" where
  "deactivateButtonClicked w = (w, [sigDeactivateThis (base w) (name w)])"

definition cleanupButtonClicked :: "ModuleListItem \<Rightarrow> ModuleListItem \<times> event list" where
  "cleanupButtonClicked w = (w, [sigCleanupStatus (base w) (name w)])"

subsection \<open>The manager's tree and state polling\<close>

text \<open>
  A loaded module object: an identity and what its \<open>getState()\<close> does when called
  now (it returns a state string or raises).
\<close>

datatype module = Module (ident: nat) (getState: "pyexn + string")

text \<open>
  \<open>manager.tree\<close>, as far as this file reads it: \<open>tree['loaded']\<close> maps a category
  to the dict of its loaded modules, \<open>tree['defined']\<close> maps a category to its defined
  modules (only the keys are read, in iteration order), and \<open>tree['global']['startup']\<close>
  is a list of names when the key is there. The three top-level keys are the manager's own
  and are always present.
\<close>

record mtree =
  loaded :: "string \<rightharpoonup> (string \<times> module) list"
  defined :: "string \<rightharpoonup> string list"
  startup :: "string list option"

text \<open>
  \<open>checkModuleState\<close>, one tick of the timer. The tree is only an argument: the function
  returns the item and the calls it made on the module. The bare \<open>except:\<close> turns any
  exception of \<open>getState()\<close> into the text \<open>exception, cannot get state\<close>; the final
  \<open>setText\<close> is inside the outer \<open>if\<close>.
\<close>

definition checkModuleState :: "mtree \<Rightarrow> ModuleListItem \<Rightarrow> ModuleListItem \<times> event list" where
  "checkModuleState t w =
     (if statusLabel w \<noteq> ''exception, cannot get state''
      then
        (case loaded t (base w) of
           None \<Rightarrow> (w\<lparr>statusLabel := ''not loaded''\<rparr>, [])
         | Some mods \<Rightarrow>
             (case map_of mods (name w) of
                None \<Rightarrow> (w\<lparr>statusLabel := ''not loaded''\<rparr>, [])
              | Some m \<Rightarrow>
                  (case getState m of
                     Inr state \<Rightarrow>
                       (w\<lparr>statusLabel := state\<rparr>, [getStateCall (base w) (name w)])
                   | Inl e \<Rightarrow>
                       (w\<lparr>statusLabel := ''exception, cannot get state''\<rparr>,
                        [getStateCall (base w) (name w)]))))
      else (w, []))"

text \<open>
  The timer fires again and again; the manager may change the tree between two ticks.
  \<open>ticks\<close> runs one \<open>checkModuleState\<close> per tree and collects the calls.
\<close>

fun ticks :: "mtree list \<Rightarrow> ModuleListItem \<Rightarrow> ModuleListItem \<times> event list" where
  "ticks [] w = (w, [])"
| "ticks (t # ts) w =
     (case checkModuleState t w of (w1, ev1) \<Rightarrow>
        (case ticks ts w1 of (w2, ev2) \<Rightarrow> (w2, ev1 @ ev2)))"

subsection \<open>The software version\<close>

text \<open>
  What the \<open>try\<close> of \<open>getSoftwareVersion\<close> meets, in the order of evaluation of
  \<open>Repo(self.get_main_dir())\<close>, \<open>repo.active_branch\<close> and \<open>repo.head.commit\<close>:
  whether the name \<open>Repo\<close> is bound (the import of git at the top of the file is in a
  \<open>try\<close> that passes on failure; the name is looked up before the argument is
  evaluated and an unbound name raises NameError), then the outcome of
  \<open>self.get_main_dir()\<close>, of the call of \<open>Repo\<close>, of \<open>repo.active_branch\<close> and of
  \<open>repo.head.commit\<close>, the last two as their string forms.
\<close>

record repoenv =
  Repo_bound :: bool
  get_main_dir :: "pyexn + string"
  Repo :: "pyexn + unit"
  active_branch :: "pyexn + string"
  head_commit :: "pyexn + string"

text \<open>The second component of the returned pair is a string or the integer \<open>-1\<close>.\<close>

datatype branchval = BranchStr string | BranchInt int

text \<open>The body of the \<open>try\<close>: the first step that raises ends it.\<close>

definition version_try :: "repoenv \<Rightarrow> pyexn + (string \<times> branchval)" where
  "version_try env =
     (if \<not> Repo_bound env then Inl (ExceptionInst ''NameError'')
      else
        (case get_main_dir env of Inl e \<Rightarrow> Inl e | Inr d \<Rightarrow>
         (case Repo env of Inl e \<Rightarrow> Inl e | Inr repo \<Rightarrow>
          (case active_branch env of Inl e \<Rightarrow> Inl e | Inr branch \<Rightarrow>
           (case head_commit env of Inl e \<Rightarrow> Inl e | Inr rev_str \<Rightarrow>
              Inr (rev_str, BranchStr branch))))))"

text \<open>
  \<open>except Exception as e\<close> prints and returns \<open>('unknown', -1)\<close>; an exception that is
  not an \<open>Exception\<close> (KeyboardInterrupt, SystemExit) is not caught.
\<close>

definition getSoftwareVersion :: "repoenv \<Rightarrow> pyexn + ((string \<times> branchval) \<times> event list)" where
  "getSoftwareVersion env =
     (case version_try env of
        Inr v \<Rightarrow> Inr (v, [])
      | Inl (ExceptionInst msg) \<Rightarrow>
          Inr ((''unknown'', BranchInt (- 1)), [printed (ExceptionInst msg)])
      | Inl (BaseExceptionOnly msg) \<Rightarrow> Inl (BaseExceptionOnly msg))"

subsection \<open>The module list of the main window\<close>

text \<open>
  The part of \<open>ManagerGui\<close> that the module list uses: \<open>self.modlist\<close> and the widgets
  of the three layouts of the main window, \<open>guilayout\<close>, \<open>logiclayout\<close> and
  \<open>hwlayout\<close>.
\<close>

datatype layout = guilayout | logiclayout | hwlayout

record modlist_state =
  modlist :: "ModuleListItem list"
  widgets :: "layout \<Rightarrow> ModuleListItem list"

text \<open>
  The loop of \<open>fillModuleList\<close> over the keys of \<open>tree['defined'][base]\<close>. The test
  \<open>module in tree['global']['startup']\<close> raises KeyError without the key \<open>startup\<close>.
  The signal connections of the new widget are not part of the state.
\<close>

fun fillModuleList_loop ::
  "string \<Rightarrow> mtree \<Rightarrow> layout \<Rightarrow> string \<Rightarrow> string list \<Rightarrow> modlist_state \<Rightarrow> pyexn + modlist_state" where
  "fillModuleList_loop ui t lay b [] s = Inr s"
| "fillModuleList_loop ui t lay b (module # rest) s =
     (case startup t of
        None \<Rightarrow> Inl (ExceptionInst ''KeyError'')
      | Some names \<Rightarrow>
          if \<not> (module \<in> set names)
          then (let widget = ModuleListItem_init ui b module in
                fillModuleList_loop ui t lay b rest
                  (s\<lparr>modlist := modlist s @ [widget],
                     widgets := (widgets s)(lay := widgets s lay @ [widget])\<rparr>))
          else fillModuleList_loop ui t lay b rest s)"

definition fillModuleList ::
  "string \<Rightarrow> mtree \<Rightarrow> layout \<Rightarrow> string \<Rightarrow> modlist_state \<Rightarrow> pyexn + modlist_state" where
  "fillModuleList ui t lay b s =
     (case defined t b of
        None \<Rightarrow> Inl (ExceptionInst ''KeyError'')
      | Some mods \<Rightarrow> fillModuleList_loop ui t lay b mods s)"

text \<open>
  \<open>updateGUIModuleList\<close>: the call of \<open>clearModuleList\<close> is commented out in the source,
  so the three fills start from the state as it is.
\<close>

definition updateGUIModuleList :: "string \<Rightarrow> mtree \<Rightarrow> modlist_state \<Rightarrow> pyexn + modlist_state" where
  "updateGUIModuleList ui t s =
     (case fillModuleList ui t guilayout ''gui'' s of Inl e \<Rightarrow> Inl e | Inr s1 \<Rightarrow>
      (case fillModuleList ui t logiclayout ''logic'' s1 of Inl e \<Rightarrow> Inl e | Inr s2 \<Rightarrow>
         fillModuleList ui t hwlayout ''hardware'' s2))"

text \<open>The state after \<open>__init__\<close> and a fresh main window: no item anywhere.\<close>

definition modlist_init :: modlist_state where
  "modlist_init = \<lparr>modlist = [], widgets = (\<lambda>lay. [])\<rparr>"

text \<open>The items of \<open>self.modlist\<close> for one (category, name) pair.\<close>

definition items_for :: "modlist_state \<Rightarrow> string \<Rightarrow> string \<Rightarrow> ModuleListItem list" where
  "items_for s c n = filter (\<lambda>w. base w = c \<and> name w = n) (modlist s)"

subsection \<open>The console namespace\<close>

text \<open>
  What the IPython namespace holds: a loaded module, or some other object (numpy, the
  manager, the configuration).
\<close>

datatype pyobj = ModuleObj module | OtherObj string

record console =
  modules :: "string set"
  namespace :: "string \<rightharpoonup> pyobj"

text \<open>
  The inner loop of \<open>updateIPythonModuleList\<close> over one category's loaded modules, on the
  pair (\<open>currentModules\<close>, \<open>newNamespace\<close>).
\<close>

fun collect_modules ::
  "(string \<times> module) list \<Rightarrow> string set \<times> (string \<rightharpoonup> pyobj) \<Rightarrow> string set \<times> (string \<rightharpoonup> pyobj)" where
  "collect_modules [] acc = acc"
| "collect_modules ((module, obj) # rest) (currentModules, newNamespace) =
     collect_modules rest (insert module currentModules, newNamespace(module \<mapsto> ModuleObj obj))"

text \<open>The outer loop over the categories; \<open>tree['loaded'][base]\<close> raises KeyError.\<close>

fun collect_bases ::
  "mtree \<Rightarrow> string list \<Rightarrow> string set \<times> (string \<rightharpoonup> pyobj) \<Rightarrow> pyexn + (string set \<times> (string \<rightharpoonup> pyobj))" where
  "collect_bases t [] acc = Inr acc"
| "collect_bases t (b # bs) acc =
     (case loaded t b of
        None \<Rightarrow> Inl (ExceptionInst ''KeyError'')
      | Some mods \<Rightarrow> collect_bases t bs (collect_modules mods acc))"

text \<open>
  \<open>updateIPythonModuleList\<close>: \<open>namespace.update(newNamespace)\<close>, then every name of
  \<open>discard\<close> is popped, then \<open>self.modules\<close> is replaced.
\<close>

definition updateIPythonModuleList :: "mtree \<Rightarrow> console \<Rightarrow> pyexn + console" where
  "updateIPythonModuleList t c =
     (case collect_bases t [''hardware'', ''logic'', ''gui''] ({}, Map.empty) of
        Inl e \<Rightarrow> Inl e
      | Inr (currentModules, newNamespace) \<Rightarrow>
          (let discard = modules c - currentModules in
           Inr \<lparr>modules = currentModules,
                namespace = (namespace c ++ newNamespace) |` (- discard)\<rparr>))"


subsection \<open>Configuration values and the tree widget\<close>

text \<open>
  A Python value as \<open>fillTreeItem\<close> tells values apart: by its exact type. \<open>Dict\<close>,
  \<open>OrderedDict\<close> and \<open>List\<close> are the values whose \<open>type(value)\<close> is exactly
  \<open>dict\<close>, \<open>OrderedDict\<close> or \<open>list\<close>; a tuple, a set, an instance of another
  subclass of dict or of list (with the name of its class) and a scalar are values of any
  other type. The keys of a mapping are strings, as \<open>setText\<close> takes them.
\<close>

datatype 'a pyvalue =
    Dict "(string \<times> 'a pyvalue) list"
  | OrderedDict "(string \<times> 'a pyvalue) list"
  | List "'a pyvalue list"
  | Tuple "'a pyvalue list"
  | SetValue "'a pyvalue list"
  | DictSubclass string "(string \<times> 'a pyvalue) list"
  | ListSubclass string "'a pyvalue list"
  | Scalar 'a

text \<open>
  A \<open>QTreeWidgetItem\<close>: the text of column 0, the expanded flag and the children. A new
  item has the empty text, is collapsed and has no child.
\<close>

datatype QTreeWidgetItem =
  QTreeWidgetItem (text0: string) (isExpanded: bool) (children: "QTreeWidgetItem list")

definition QTreeWidgetItem_new :: QTreeWidgetItem where
  "QTreeWidgetItem_new = QTreeWidgetItem [] False []"

fun setText0 :: "QTreeWidgetItem \<Rightarrow> string \<Rightarrow> QTreeWidgetItem" where
  "setText0 (QTreeWidgetItem t e cs) s = QTreeWidgetItem s e cs"

fun setExpanded :: "QTreeWidgetItem \<Rightarrow> bool \<Rightarrow> QTreeWidgetItem" where
  "setExpanded (QTreeWidgetItem t e cs) b = QTreeWidgetItem t b cs"

fun addChild :: "QTreeWidgetItem \<Rightarrow> QTreeWidgetItem \<Rightarrow> QTreeWidgetItem" where
  "addChild (QTreeWidgetItem t e cs) child = QTreeWidgetItem t e (cs @ [child])"

text \<open>
  \<open>fillTreeItem\<close>. \<open>str\<close> is Python's \<open>str()\<close> on values, a parameter. The two
  loops are \<open>fillTreeItem_keys\<close> (over the keys of a mapping) and
  \<open>fillTreeItem_vals\<close> (over the elements of a list). The source adds the new child to
  \<open>item\<close> and then fills the child through the shared reference; here the child is
  filled and then added, which gives the same tree.
\<close>

function (sequential) fillTreeItem :: "('a pyvalue \<Rightarrow> string) \<Rightarrow> QTreeWidgetItem \<Rightarrow> 'a pyvalue \<Rightarrow> QTreeWidgetItem"
  and fillTreeItem_keys :: "('a pyvalue \<Rightarrow> string) \<Rightarrow> QTreeWidgetItem \<Rightarrow> (string \<times> 'a pyvalue) list \<Rightarrow> QTreeWidgetItem"
  and fillTreeItem_vals :: "('a pyvalue \<Rightarrow> string) \<Rightarrow> QTreeWidgetItem \<Rightarrow> 'a pyvalue list \<Rightarrow> QTreeWidgetItem"
where
  "fillTreeItem str item (OrderedDict kvs) = fillTreeItem_keys str (setExpanded item True) kvs"
| "fillTreeItem str item (Dict kvs) = fillTreeItem_keys str (setExpanded item True) kvs"
| "fillTreeItem str item (List vs) = fillTreeItem_vals str (setExpanded item True) vs"
| "fillTreeItem str item v =
     addChild (setExpanded item True) (setText0 QTreeWidgetItem_new (str v))"
| "fillTreeItem_keys str item [] = item"
| "fillTreeItem_keys str item ((key, v) # rest) =
     fillTreeItem_keys str
       (addChild item (fillTreeItem str (setText0 QTreeWidgetItem_new key) v)) rest"
| "fillTreeItem_vals str item [] = item"
| "fillTreeItem_vals str item (val # rest) =
     fillTreeItem_vals str
       (addChild item
          (setExpanded
             (case val of
                Dict kvs \<Rightarrow> fillTreeItem str (setText0 QTreeWidgetItem_new ''[dict]'') val
              | OrderedDict kvs \<Rightarrow> fillTreeItem str (setText0 QTreeWidgetItem_new ''[odict]'') val
              | List vs \<Rightarrow> fillTreeItem str (setText0 QTreeWidgetItem_new ''[list]'') val
              | _ \<Rightarrow> setText0 QTreeWidgetItem_new (str val))
             True))
       rest"
  by pat_completeness auto
termination
  by (relation "measure (\<lambda>x. case x of
        Inl (str, item, v) \<Rightarrow> size v
      | Inr (Inl (str, item, kvs)) \<Rightarrow> size_list (size_prod (\<lambda>k. 0) size) kvs
      | Inr (Inr (str, item, vs)) \<Rightarrow> size_list size vs)") auto

text \<open>
  A \<open>QTreeWidget\<close> is its invisible root item; \<open>clear()\<close> removes all items of the
  tree, that is, the children of the root.
\<close>

record QTreeWidget =
  invisibleRootItem :: QTreeWidgetItem

definition clear :: "QTreeWidget \<Rightarrow> QTreeWidget" where
  "clear widget =
     widget\<lparr>invisibleRootItem :=
       (case invisibleRootItem widget of QTreeWidgetItem t e cs \<Rightarrow> QTreeWidgetItem t e [])\<rparr>"

definition fillTreeWidget :: "('a pyvalue \<Rightarrow> string) \<Rightarrow> QTreeWidget \<Rightarrow> 'a pyvalue \<Rightarrow> QTreeWidget" where
  "fillTreeWidget str widget v =
     (let w1 = clear widget in
      w1\<lparr>invisibleRootItem := fillTreeItem str (invisibleRootItem w1) v\<rparr>)"

text \<open>The test of \<open>fillTreeItem\<close> for the values it descends into.\<close>

definition exact_container :: "'a pyvalue \<Rightarrow> bool" where
  "exact_container v =
     (case v of Dict kvs \<Rightarrow> True | OrderedDict kvs \<Rightarrow> True | List vs \<Rightarrow> True | _ \<Rightarrow> False)"

text \<open>A \<open>str()\<close> for the examples below.\<close>

definition str_example :: "nat pyvalue \<Rightarrow> string" where
  "str_example v =
     (case v of Tuple xs \<Rightarrow> ''(1, 2)'' | DictSubclass c kvs \<Rightarrow> c @ ''()'' | Scalar n \<Rightarrow> ''7''
      | _ \<Rightarrow> ''?'')"

section \<open>Properties\<close>

subsection \<open>Confirmation dialogs\<close>

lemma reloadConfig_emits: "reloadConfig reply cf = [sigLoadConfig cf (reply = Yes)]"
  by (simp add: reloadConfig_def)

lemma getLoadFile_emits:
  "getLoadFile fn reply = (if fn = [] then [] else [sigLoadConfig fn (reply = Yes)])"
  by (simp add: getLoadFile_def)

text \<open>
  C1, as stated: answering No aborts, so no \<open>sigLoadConfig\<close> is emitted. This fails:
  with the answer No, \<open>reloadConfig\<close> on the file \<open>a.cfg\<close> and \<open>getLoadFile\<close> on the
  chosen file \<open>a.cfg\<close> each emit \<open>sigLoadConfig\<close>, with the restart flag False.
\<close>

theorem C1_decline_still_emits:
  "reloadConfig No ''a.cfg'' = [sigLoadConfig ''a.cfg'' False]
   \<and> getLoadFile ''a.cfg'' No = [sigLoadConfig ''a.cfg'' False]
   \<and> reloadConfig No ''a.cfg'' \<noteq> []
   \<and> getLoadFile ''a.cfg'' No \<noteq> []"
  by (simp add: reloadConfig_def getLoadFile_def)

text \<open>
  C1, amended: the answer is carried in the request, it does not gate it.
  \<open>reloadConfig\<close> always emits exactly one \<open>sigLoadConfig\<close> with the manager's
  configuration file; \<open>getLoadFile\<close> emits exactly one with the chosen file when the
  file name is not empty and nothing when it is empty; the restart flag is True exactly
  when the answer is Yes, so the answer No sends the request with the flag False.
\<close>

theorem C1_answer_is_restart_flag:
  "reloadConfig reply cf = [sigLoadConfig cf (reply = Yes)]
   \<and> reloadConfig No cf = [sigLoadConfig cf False]
   \<and> getLoadFile [] reply = []
   \<and> (fn \<noteq> [] \<longrightarrow> getLoadFile fn reply = [sigLoadConfig fn (reply = Yes)])
   \<and> (fn \<noteq> [] \<longrightarrow> getLoadFile fn No = [sigLoadConfig fn False])"
  by (simp add: reloadConfig_def getLoadFile_def)

theorem C1_answer_is_restart_flag_witness:
  "''a.cfg'' \<noteq> [] \<and> getLoadFile ''a.cfg'' Yes = [sigLoadConfig ''a.cfg'' True]
   \<and> getLoadFile ''a.cfg'' No = [sigLoadConfig ''a.cfg'' False]"
  using C1_answer_is_restart_flag [of Yes "''a.cfg''" "''a.cfg''"]
        C1_answer_is_restart_flag [of No "''a.cfg''" "''a.cfg''"]
  by simp

subsection \<open>The load button\<close>

text \<open>
  C5: a click on the load button emits the load intent with (category, name); the label
  becomes \<open>Show <name>\<close> when the category is \<open>gui\<close> and is left as it is otherwise.
  On an item as the constructor made it (label \<open>Load <name>\<close>), the label changes if
  and only if the category is \<open>gui\<close>.
\<close>

theorem C5_load_button:
  "snd (loadButtonClicked w) = [sigLoadThis (base w) (name w)]
   \<and> loadButton (fst (loadButtonClicked w)) =
       (if base w = ''gui'' then ''Show '' @ name w else loadButton w)
   \<and> base (fst (loadButtonClicked w)) = base w
   \<and> name (fst (loadButtonClicked w)) = name w
   \<and> statusLabel (fst (loadButtonClicked w)) = statusLabel w
   \<and> loadButton (ModuleListItem_init u b n) = ''Load '' @ n
   \<and> (loadButton (fst (loadButtonClicked (ModuleListItem_init u b n)))
         \<noteq> loadButton (ModuleListItem_init u b n)) = (b = ''gui'')
   \<and> loadButton (fst (loadButtonClicked (ModuleListItem_init u ''gui'' n))) = ''Show '' @ n
   \<and> loadButton (fst (loadButtonClicked (ModuleListItem_init u ''logic'' n))) = ''Load '' @ n
   \<and> loadButton (fst (loadButtonClicked (ModuleListItem_init u ''hardware'' n))) = ''Load '' @ n"
  by (simp add: loadButtonClicked_def ModuleListItem_init_def)

theorem C5_load_button_witness:
  "loadButtonClicked (ModuleListItem_init ''status'' ''gui'' ''counter'') =
     (\<lparr>base = ''gui'', name = ''counter'', loadButton = ''Show counter'',
       statusLabel = ''status''\<rparr>, [sigLoadThis ''gui'' ''counter''])
   \<and> loadButtonClicked (ModuleListItem_init ''status'' ''logic'' ''counter'') =
     (\<lparr>base = ''logic'', name = ''counter'', loadButton = ''Load counter'',
       statusLabel = ''status''\<rparr>, [sigLoadThis ''logic'' ''counter''])"
  using C5_load_button [of "ModuleListItem_init ''status'' ''gui'' ''counter''" "''status''" "''gui''" "''counter''"]
  by (simp add: loadButtonClicked_def ModuleListItem_init_def)

subsection \<open>Log entries and the error popup\<close>

text \<open>
  C7: every handled entry is appended to the visible log; the error dialog is shown with
  the entry if and only if the entry's level is \<open>error\<close> or \<open>critical\<close>, each such
  entry once more (nothing is suppressed or merged), and an \<open>info\<close> entry never.
\<close>

theorem C7_handleLogEntry:
  "logwidget (fst (handleLogEntry s e)) = logwidget s @ [e]
   \<and> errorDialog (fst (handleLogEntry s e)) =
       (if e ''level'' = Some ''error'' \<or> e ''level'' = Some ''critical''
        then errorDialog s @ [e] else errorDialog s)
   \<and> (e ''level'' = Some ''info'' \<longrightarrow> errorDialog (fst (handleLogEntry s e)) = errorDialog s)
   \<and> (snd (handleLogEntry s e) = None) = (e ''level'' \<noteq> None)"
  by (auto simp: handleLogEntry_def Let_def split: option.splits)

theorem C7_handleLogEntry_witness:
  "errorDialog (fst (handleLogEntry \<lparr>logwidget = [], errorDialog = []\<rparr>
      [''level'' \<mapsto> ''info''])) = []
   \<and> errorDialog (fst (handleLogEntry \<lparr>logwidget = [], errorDialog = []\<rparr>
      [''level'' \<mapsto> ''error''])) = [[''level'' \<mapsto> ''error'']]
   \<and> logwidget (fst (handleLogEntry \<lparr>logwidget = [], errorDialog = []\<rparr>
      [''level'' \<mapsto> ''info''])) = [[''level'' \<mapsto> ''info'']]"
  using C7_handleLogEntry [of "\<lparr>logwidget = [], errorDialog = []\<rparr>" "[''level'' \<mapsto> ''info'']"]
        C7_handleLogEntry [of "\<lparr>logwidget = [], errorDialog = []\<rparr>" "[''level'' \<mapsto> ''error'']"]
  by simp

subsection \<open>State polling\<close>

lemma checkModuleState_latched:
  "statusLabel w = ''exception, cannot get state'' \<Longrightarrow> checkModuleState t w = (w, [])"
  by (simp add: checkModuleState_def)

lemma ticks_latched:
  "statusLabel w = ''exception, cannot get state'' \<Longrightarrow> ticks ts w = (w, [])"
  by (induction ts) (simp_all add: checkModuleState_latched)

lemma checkModuleState_throws:
  assumes "loaded t (base w) = Some mods" and "map_of mods (name w) = Some m"
    and "getState m = Inl e"
  shows "statusLabel (fst (checkModuleState t w)) = ''exception, cannot get state''"
  using assms by (simp add: checkModuleState_def)

text \<open>
  C3: the error display is a latch. An item whose status label shows
  \<open>exception, cannot get state\<close> is left as it is by every sequence of later ticks, and
  none of them calls \<open>getState\<close>. When the item's module is loaded and its \<open>getState\<close>
  raises, one tick sets the label to that text, and every later tick, whatever the tree
  has become, leaves the item there without a call.
\<close>

theorem C3_error_latch:
  "(statusLabel w = ''exception, cannot get state'' \<longrightarrow> ticks ts w = (w, []))
   \<and> (loaded t (base w) = Some mods \<and> map_of mods (name w) = Some m \<and> getState m = Inl e
        \<longrightarrow> statusLabel (fst (checkModuleState t w)) = ''exception, cannot get state''
          \<and> ticks ts (fst (checkModuleState t w)) = (fst (checkModuleState t w), [])
          \<and> statusLabel (fst (ticks (t # ts) w)) = ''exception, cannot get state'')"
proof (intro conjI impI)
  assume "statusLabel w = ''exception, cannot get state''"
  then show "ticks ts w = (w, [])" by (rule ticks_latched)
next
  assume a: "loaded t (base w) = Some mods \<and> map_of mods (name w) = Some m \<and> getState m = Inl e"
  then have l: "statusLabel (fst (checkModuleState t w)) = ''exception, cannot get state''"
    by (simp add: checkModuleState_throws)
  then show "statusLabel (fst (checkModuleState t w)) = ''exception, cannot get state''" .
  from l show r: "ticks ts (fst (checkModuleState t w)) = (fst (checkModuleState t w), [])"
    by (rule ticks_latched)
  show "statusLabel (fst (ticks (t # ts) w)) = ''exception, cannot get state''"
    using l r by (cases "checkModuleState t w") simp
qed

theorem C3_error_latch_witness:
  "statusLabel (fst (ticks
      [\<lparr>loaded = [''logic'' \<mapsto> [(''counter'', Module 1 (Inl (ExceptionInst ''boom'')))]],
         defined = Map.empty, startup = None\<rparr>,
       \<lparr>loaded = [''logic'' \<mapsto> [(''counter'', Module 1 (Inr ''running''))]],
         defined = Map.empty, startup = None\<rparr>]
      (ModuleListItem_init ''idle'' ''logic'' ''counter''))) = ''exception, cannot get state''
   \<and> ticks
      [\<lparr>loaded = [''logic'' \<mapsto> [(''counter'', Module 1 (Inr ''running''))]],
         defined = Map.empty, startup = None\<rparr>]
      (fst (checkModuleState
        \<lparr>loaded = [''logic'' \<mapsto> [(''counter'', Module 1 (Inl (ExceptionInst ''boom'')))]],
          defined = Map.empty, startup = None\<rparr>
        (ModuleListItem_init ''idle'' ''logic'' ''counter'')))
     = (\<lparr>base = ''logic'', name = ''counter'', loadButton = ''Load counter'',
         statusLabel = ''exception, cannot get state''\<rparr>, [])"
  using C3_error_latch [of "ModuleListItem_init ''idle'' ''logic'' ''counter''"
      "[\<lparr>loaded = [''logic'' \<mapsto> [(''counter'', Module 1 (Inr ''running''))]],
         defined = Map.empty, startup = None\<rparr>]"
      "\<lparr>loaded = [''logic'' \<mapsto> [(''counter'', Module 1 (Inl (ExceptionInst ''boom'')))]],
         defined = Map.empty, startup = None\<rparr>"
      "[(''counter'', Module 1 (Inl (ExceptionInst ''boom'')))]"
      "Module 1 (Inl (ExceptionInst ''boom''))" "ExceptionInst ''boom''"]
  by (simp add: ModuleListItem_init_def checkModuleState_def)

text \<open>
  C4: when the item is not latched and its (category, name) is not in the loaded-module
  mapping (the category is missing, or the name is missing in the category), one tick sets
  the status label to \<open>not loaded\<close>, changes nothing else of the item and makes no call
  on the manager's tree or on a module.
\<close>

theorem C4_not_loaded:
  assumes "statusLabel w \<noteq> ''exception, cannot get state''"
    and "loaded t (base w) = None
         \<or> (\<exists>mods. loaded t (base w) = Some mods \<and> map_of mods (name w) = None)"
  shows "checkModuleState t w = (w\<lparr>statusLabel := ''not loaded''\<rparr>, [])"
  using assms by (auto simp: checkModuleState_def)

theorem C4_not_loaded_witness:
  "checkModuleState
     \<lparr>loaded = [''logic'' \<mapsto> [(''counter'', Module 1 (Inr ''running''))]],
       defined = Map.empty, startup = None\<rparr>
     (ModuleListItem_init ''idle'' ''logic'' ''fit'')
   = (\<lparr>base = ''logic'', name = ''fit'', loadButton = ''Load fit'',
       statusLabel = ''not loaded''\<rparr>, [])
   \<and> checkModuleState
     \<lparr>loaded = [''logic'' \<mapsto> [(''counter'', Module 1 (Inr ''running''))]],
       defined = Map.empty, startup = None\<rparr>
     (ModuleListItem_init ''idle'' ''gui'' ''counter'')
   = (\<lparr>base = ''gui'', name = ''counter'', loadButton = ''Load counter'',
       statusLabel = ''not loaded''\<rparr>, [])"
  using C4_not_loaded [of "ModuleListItem_init ''idle'' ''logic'' ''fit''"
      "\<lparr>loaded = [''logic'' \<mapsto> [(''counter'', Module 1 (Inr ''running''))]],
        defined = Map.empty, startup = None\<rparr>"]
    C4_not_loaded [of "ModuleListItem_init ''idle'' ''gui'' ''counter''"
      "\<lparr>loaded = [''logic'' \<mapsto> [(''counter'', Module 1 (Inr ''running''))]],
        defined = Map.empty, startup = None\<rparr>"]
  by (simp add: ModuleListItem_init_def)

subsection \<open>The software version\<close>

text \<open>
  C8: whichever step of the version lookup fails with an \<open>Exception\<close> (the name
  \<open>Repo\<close> is unbound, or \<open>get_main_dir\<close>, the call of \<open>Repo\<close>,
  \<open>active_branch\<close> or \<open>head.commit\<close> raises, the steps before it having succeeded),
  \<open>getSoftwareVersion\<close> returns normally with the pair \<open>('unknown', -1)\<close> and has
  printed that exception; no \<open>Exception\<close> ever leaves the function; and when every step
  succeeds it returns the pair of the revision and the branch, both strings, and prints
  nothing.
\<close>

theorem C8_getSoftwareVersion:
  "(\<not> Repo_bound env \<longrightarrow>
      getSoftwareVersion env =
        Inr ((''unknown'', BranchInt (- 1)), [printed (ExceptionInst ''NameError'')]))
   \<and> (Repo_bound env \<and> get_main_dir env = Inl (ExceptionInst msg) \<longrightarrow>
      getSoftwareVersion env =
        Inr ((''unknown'', BranchInt (- 1)), [printed (ExceptionInst msg)]))
   \<and> (Repo_bound env \<and> get_main_dir env = Inr d \<and> Repo env = Inl (ExceptionInst msg) \<longrightarrow>
      getSoftwareVersion env =
        Inr ((''unknown'', BranchInt (- 1)), [printed (ExceptionInst msg)]))
   \<and> (Repo_bound env \<and> get_main_dir env = Inr d \<and> Repo env = Inr ()
        \<and> active_branch env = Inl (ExceptionInst msg) \<longrightarrow>
      getSoftwareVersion env =
        Inr ((''unknown'', BranchInt (- 1)), [printed (ExceptionInst msg)]))
   \<and> (Repo_bound env \<and> get_main_dir env = Inr d \<and> Repo env = Inr ()
        \<and> active_branch env = Inr branch \<and> head_commit env = Inl (ExceptionInst msg) \<longrightarrow>
      getSoftwareVersion env =
        Inr ((''unknown'', BranchInt (- 1)), [printed (ExceptionInst msg)]))
   \<and> (Repo_bound env \<and> get_main_dir env = Inr d \<and> Repo env = Inr ()
        \<and> active_branch env = Inr branch \<and> head_commit env = Inr rev_str \<longrightarrow>
      getSoftwareVersion env = Inr ((rev_str, BranchStr branch), []))
   \<and> getSoftwareVersion env \<noteq> Inl (ExceptionInst msg)"
  by (auto simp: getSoftwareVersion_def version_try_def split: sum.splits pyexn.splits)

theorem C8_getSoftwareVersion_witness:
  "getSoftwareVersion
     \<lparr>Repo_bound = True, get_main_dir = Inr ''/opt/qudi'',
       Repo = Inl (ExceptionInst ''InvalidGitRepositoryError''),
       active_branch = Inr ''master'', head_commit = Inr ''0a1b2c''\<rparr>
   = Inr ((''unknown'', BranchInt (- 1)), [printed (ExceptionInst ''InvalidGitRepositoryError'')])
   \<and> getSoftwareVersion
     \<lparr>Repo_bound = True, get_main_dir = Inr ''/opt/qudi'', Repo = Inr (),
       active_branch = Inl (ExceptionInst ''TypeError''), head_commit = Inr ''0a1b2c''\<rparr>
   = Inr ((''unknown'', BranchInt (- 1)), [printed (ExceptionInst ''TypeError'')])
   \<and> getSoftwareVersion
     \<lparr>Repo_bound = False, get_main_dir = Inl (BaseExceptionOnly ''KeyboardInterrupt''),
       Repo = Inr (), active_branch = Inr ''master'', head_commit = Inr ''0a1b2c''\<rparr>
   = Inr ((''unknown'', BranchInt (- 1)), [printed (ExceptionInst ''NameError'')])
   \<and> getSoftwareVersion
     \<lparr>Repo_bound = True, get_main_dir = Inr ''/opt/qudi'', Repo = Inr (),
       active_branch = Inr ''master'', head_commit = Inr ''0a1b2c''\<rparr>
   = Inr ((''0a1b2c'', BranchStr ''master''), [])"
  using C8_getSoftwareVersion [where env =
      "\<lparr>Repo_bound = True, get_main_dir = Inr ''/opt/qudi'',
        Repo = Inl (ExceptionInst ''InvalidGitRepositoryError''),
        active_branch = Inr ''master'', head_commit = Inr ''0a1b2c''\<rparr>"
      and msg = "''InvalidGitRepositoryError''" and d = "''/opt/qudi''"
      and branch = "''master''" and rev_str = "''0a1b2c''"]
    C8_getSoftwareVersion [where env =
      "\<lparr>Repo_bound = True, get_main_dir = Inr ''/opt/qudi'', Repo = Inr (),
        active_branch = Inl (ExceptionInst ''TypeError''), head_commit = Inr ''0a1b2c''\<rparr>"
      and msg = "''TypeError''" and d = "''/opt/qudi''"
      and branch = "''master''" and rev_str = "''0a1b2c''"]
    C8_getSoftwareVersion [where env =
      "\<lparr>Repo_bound = False, get_main_dir = Inl (BaseExceptionOnly ''KeyboardInterrupt''),
        Repo = Inr (), active_branch = Inr ''master'', head_commit = Inr ''0a1b2c''\<rparr>"
      and msg = "''x''" and d = "''/opt/qudi''"
      and branch = "''master''" and rev_str = "''0a1b2c''"]
    C8_getSoftwareVersion [where env =
      "\<lparr>Repo_bound = True, get_main_dir = Inr ''/opt/qudi'', Repo = Inr (),
        active_branch = Inr ''master'', head_commit = Inr ''0a1b2c''\<rparr>"
      and msg = "''x''" and d = "''/opt/qudi''"
      and branch = "''master''" and rev_str = "''0a1b2c''"]
  by simp

subsection \<open>Rebuilding the module list\<close>

text \<open>
  A fill appends one new item per defined module that is not in the startup list, to
  \<open>self.modlist\<close> and to the layout; nothing is removed.
\<close>

lemma fillModuleList_loop_appends:
  "startup t = Some names \<Longrightarrow>
   fillModuleList_loop ui t lay b mods s =
     Inr (s\<lparr>modlist := modlist s @ map (ModuleListItem_init ui b) (filter (\<lambda>m. m \<notin> set names) mods),
            widgets := (widgets s)(lay := widgets s lay
                @ map (ModuleListItem_init ui b) (filter (\<lambda>m. m \<notin> set names) mods))\<rparr>)"
  by (induction mods arbitrary: s) (simp_all add: Let_def)

lemma updateGUIModuleList_appends:
  assumes "startup t = Some names" and "defined t ''gui'' = Some g"
    and "defined t ''logic'' = Some l" and "defined t ''hardware'' = Some h"
  shows "\<exists>s'. updateGUIModuleList ui t s = Inr s' \<and>
     modlist s' = modlist s
        @ map (ModuleListItem_init ui ''gui'') (filter (\<lambda>m. m \<notin> set names) g)
        @ map (ModuleListItem_init ui ''logic'') (filter (\<lambda>m. m \<notin> set names) l)
        @ map (ModuleListItem_init ui ''hardware'') (filter (\<lambda>m. m \<notin> set names) h)"
  using assms
  by (simp add: updateGUIModuleList_def fillModuleList_def fillModuleList_loop_appends)

text \<open>
  C2 says that a second rebuild over the same tree leaves exactly one item per defined,
  non-excluded module. The code does not clear before it refills: on the tree with the gui
  modules \<open>a\<close> and \<open>b\<close> defined and \<open>a\<close> in the startup list, the first
  \<open>updateGUIModuleList\<close> gives one item for \<open>(gui, b)\<close> (and none for
  \<open>(gui, a)\<close>), and the second one leaves two items for \<open>(gui, b)\<close>.
\<close>

theorem C2_second_rebuild_duplicates:
  "(case updateGUIModuleList ''u''
           \<lparr>loaded = Map.empty,
             defined = [''gui'' \<mapsto> [''a'', ''b''], ''logic'' \<mapsto> [], ''hardware'' \<mapsto> []],
             startup = Some [''a'']\<rparr> modlist_init of
      Inl e \<Rightarrow> Inl e
    | Inr s1 \<Rightarrow>
        map_sum id (\<lambda>s2. (items_for s1 ''gui'' ''b'', items_for s2 ''gui'' ''b''))
          (updateGUIModuleList ''u''
             \<lparr>loaded = Map.empty,
               defined = [''gui'' \<mapsto> [''a'', ''b''], ''logic'' \<mapsto> [], ''hardware'' \<mapsto> []],
               startup = Some [''a'']\<rparr> s1))
   = Inr ([ModuleListItem_init ''u'' ''gui'' ''b''],
          [ModuleListItem_init ''u'' ''gui'' ''b'', ModuleListItem_init ''u'' ''gui'' ''b''])"
  by (simp add: updateGUIModuleList_def fillModuleList_def modlist_init_def Let_def
      items_for_def ModuleListItem_init_def)

subsection \<open>The console namespace\<close>

lemma collect_modules_eq:
  "collect_modules mods (cur, ns) =
     (cur \<union> fst ` set mods, ns ++ map_of (rev (map (\<lambda>(k, m). (k, ModuleObj m)) mods)))"
proof (induction mods arbitrary: cur ns)
  case Nil
  then show ?case by simp
next
  case (Cons p mods)
  obtain k m where p: "p = (k, m)" by (cases p)
  show ?case
    by (auto simp: p Cons.IH map_add_def fun_eq_iff split: option.splits)
qed

lemma collect_bases_three:
  assumes "loaded t ''hardware'' = Some hw" and "loaded t ''logic'' = Some lg"
    and "loaded t ''gui'' = Some gu"
  shows "collect_bases t [''hardware'', ''logic'', ''gui''] ({}, Map.empty) =
     Inr (fst ` set (hw @ lg @ gu),
          map_option ModuleObj \<circ> map_of (rev (hw @ lg @ gu)))"
proof -
  have m: "map_of (rev (map (\<lambda>(k, m). (k, ModuleObj m)) xs)) = map_option ModuleObj \<circ> map_of (rev xs)"
    for xs :: "(string \<times> module) list"
    by (simp add: rev_map map_of_map)
  have "collect_bases t [''hardware'', ''logic'', ''gui''] ({}, Map.empty) =
      Inr (collect_modules gu (collect_modules lg (collect_modules hw ({}, Map.empty))))"
    using assms by simp
  also have "collect_modules gu (collect_modules lg (collect_modules hw ({}, Map.empty))) =
      (fst ` set (hw @ lg @ gu), map_option ModuleObj \<circ> map_of (rev (hw @ lg @ gu)))"
    by (auto simp: collect_modules_eq m map_add_def fun_eq_iff image_Un split: option.splits)
  finally show ?thesis .
qed

lemma collect_bases_KeyError:
  "b \<in> set bs \<Longrightarrow> loaded t b = None \<Longrightarrow> collect_bases t bs acc = Inl (ExceptionInst ''KeyError'')"
proof (induction bs arbitrary: acc)
  case Nil
  then show ?case by simp
next
  case (Cons a bs)
  show ?case
  proof (cases "loaded t a")
    case None
    then show ?thesis by simp
  next
    case (Some mods)
    with Cons.prems have "b \<in> set bs" by auto
    then show ?thesis using Some Cons.IH Cons.prems(2) by simp
  qed
qed

text \<open>
  C10, as stated, has every loaded module bound in the namespace under its name. The
  namespace is flat, so with a hardware module and a logic module both named \<open>x\<close>
  the name \<open>x\<close> is tracked and bound to the logic module, and the hardware module is not
  bound under its name.
\<close>

theorem C10_name_collision:
  "map_sum id (\<lambda>c'. (modules c', namespace c' ''x''))
     (updateIPythonModuleList
        \<lparr>loaded = [''hardware'' \<mapsto> [(''x'', Module 1 (Inr ''idle''))],
                   ''logic'' \<mapsto> [(''x'', Module 2 (Inr ''idle''))],
                   ''gui'' \<mapsto> []],
          defined = Map.empty, startup = None\<rparr>
        \<lparr>modules = {}, namespace = Map.empty\<rparr>)
   = Inr ({''x''}, Some (ModuleObj (Module 2 (Inr ''idle''))))
   \<and> ModuleObj (Module 2 (Inr ''idle'')) \<noteq> ModuleObj (Module 1 (Inr ''idle''))"
  by (simp add: updateIPythonModuleList_def Let_def)

text \<open>
  C10, amended: when \<open>tree['loaded']\<close> has the three categories, the call returns and
  afterwards the tracked set is the set of the names loaded in hardware, logic and gui;
  every name tracked before and no longer loaded is absent from the namespace; every
  loaded name is bound to the module that has this name in the last of hardware, logic,
  gui to have it (\<open>map_of\<close> of the reversed concatenation); and every name that was
  neither tracked before nor is loaded now keeps its entry.
\<close>

theorem C10_updateIPythonModuleList:
  assumes "loaded t ''hardware'' = Some hw" and "loaded t ''logic'' = Some lg"
    and "loaded t ''gui'' = Some gu"
  shows "\<exists>c'. updateIPythonModuleList t c = Inr c'
     \<and> modules c' = fst ` set (hw @ lg @ gu)
     \<and> (\<forall>n. n \<in> modules c \<and> n \<notin> modules c' \<longrightarrow> namespace c' n = None)
     \<and> (\<forall>n. n \<in> modules c' \<longrightarrow>
           namespace c' n = map_option ModuleObj (map_of (rev (hw @ lg @ gu)) n))
     \<and> (\<forall>n. n \<notin> modules c \<and> n \<notin> modules c' \<longrightarrow> namespace c' n = namespace c n)"
proof -
  define cur where "cur = fst ` set (hw @ lg @ gu)"
  define new where "new = map_option ModuleObj \<circ> map_of (rev (hw @ lg @ gu))"
  define c' where
    "c' = \<lparr>modules = cur, namespace = (namespace c ++ new) |` (- (modules c - cur))\<rparr>"
  have r: "updateIPythonModuleList t c = Inr c'"
    unfolding updateIPythonModuleList_def collect_bases_three [OF assms]
    by (simp add: Let_def c'_def cur_def new_def)
  have dom: "n \<in> cur \<longleftrightarrow> new n \<noteq> None" for n
    by (auto simp: cur_def new_def map_of_eq_None_iff image_Un)
  have 0: "modules c' = fst ` set (hw @ lg @ gu)"
    by (simp add: c'_def cur_def)
  have 1: "\<forall>n. n \<in> modules c \<and> n \<notin> modules c' \<longrightarrow> namespace c' n = None"
    by (simp add: c'_def)
  have 2: "\<forall>n. n \<in> modules c' \<longrightarrow>
           namespace c' n = map_option ModuleObj (map_of (rev (hw @ lg @ gu)) n)"
  proof (intro allI impI)
    fix n assume "n \<in> modules c'"
    then have n: "n \<in> cur" by (simp add: c'_def)
    then obtain v where v: "new n = Some v" using dom by auto
    have "namespace c' n = new n"
      using n v by (simp add: c'_def map_add_def)
    then show "namespace c' n = map_option ModuleObj (map_of (rev (hw @ lg @ gu)) n)"
      by (simp add: new_def)
  qed
  have 3: "\<forall>n. n \<notin> modules c \<and> n \<notin> modules c' \<longrightarrow> namespace c' n = namespace c n"
  proof (intro allI impI)
    fix n assume "n \<notin> modules c \<and> n \<notin> modules c'"
    then have n: "n \<notin> modules c" "n \<notin> cur" by (simp_all add: c'_def)
    then have "new n = None" using dom by auto
    then show "namespace c' n = namespace c n"
      using n by (simp add: c'_def map_add_def)
  qed
  show ?thesis
    using r 0 1 2 3 by blast
qed

theorem C10_updateIPythonModuleList_witness:
  "\<exists>c'. updateIPythonModuleList
       \<lparr>loaded = [''hardware'' \<mapsto> [(''cam'', Module 1 (Inr ''idle''))],
                  ''logic'' \<mapsto> [(''counter'', Module 2 (Inr ''running''))],
                  ''gui'' \<mapsto> []],
         defined = Map.empty, startup = None\<rparr>
       \<lparr>modules = {''old'', ''cam''},
         namespace = [''np'' \<mapsto> OtherObj ''numpy'',
                      ''old'' \<mapsto> ModuleObj (Module 0 (Inr ''idle'')),
                      ''cam'' \<mapsto> ModuleObj (Module 7 (Inr ''idle''))]\<rparr> = Inr c'
     \<and> modules c' = {''cam'', ''counter''}
     \<and> namespace c' ''old'' = None
     \<and> namespace c' ''cam'' = Some (ModuleObj (Module 1 (Inr ''idle'')))
     \<and> namespace c' ''counter'' = Some (ModuleObj (Module 2 (Inr ''running'')))
     \<and> namespace c' ''np'' = Some (OtherObj ''numpy'')"
proof -
  define t where "t = \<lparr>loaded = [''hardware'' \<mapsto> [(''cam'', Module 1 (Inr ''idle''))],
                  ''logic'' \<mapsto> [(''counter'', Module 2 (Inr ''running''))],
                  ''gui'' \<mapsto> []],
         defined = Map.empty, startup = None\<rparr>"
  define c where "c = \<lparr>modules = {''old'', ''cam''},
         namespace = [''np'' \<mapsto> OtherObj ''numpy'',
                      ''old'' \<mapsto> ModuleObj (Module 0 (Inr ''idle'')),
                      ''cam'' \<mapsto> ModuleObj (Module 7 (Inr ''idle''))]\<rparr>"
  define hw where "hw = [(''cam'', Module 1 (Inr ''idle''))]"
  define lg where "lg = [(''counter'', Module 2 (Inr ''running''))]"
  have h: "loaded t ''hardware'' = Some hw"
    and l: "loaded t ''logic'' = Some lg"
    and g: "loaded t ''gui'' = Some []"
    by (simp_all add: t_def hw_def lg_def)
  from C10_updateIPythonModuleList [OF h l g, of c]
  obtain c' where r: "updateIPythonModuleList t c = Inr c'"
    and m0: "modules c' = fst ` set (hw @ lg @ [])"
    and d: "\<forall>n. n \<in> modules c \<and> n \<notin> modules c' \<longrightarrow> namespace c' n = None"
    and b: "\<forall>n. n \<in> modules c' \<longrightarrow> namespace c' n =
        map_option ModuleObj (map_of (rev (hw @ lg @ [])) n)"
    and k: "\<forall>n. n \<notin> modules c \<and> n \<notin> modules c' \<longrightarrow> namespace c' n = namespace c n"
    by blast
  have m: "modules c' = {''cam'', ''counter''}"
    by (simp add: m0 hw_def lg_def)
  have "namespace c' ''old'' = None"
    using d [rule_format, of "''old''"] by (simp add: m c_def)
  moreover have "namespace c' ''cam'' = Some (ModuleObj (Module 1 (Inr ''idle'')))"
    using b [rule_format, of "''cam''"] by (simp add: m hw_def lg_def)
  moreover have "namespace c' ''counter'' = Some (ModuleObj (Module 2 (Inr ''running'')))"
    using b [rule_format, of "''counter''"] by (simp add: m hw_def lg_def)
  moreover have "namespace c' ''np'' = Some (OtherObj ''numpy'')"
    using k [rule_format, of "''np''"] by (simp add: m c_def)
  ultimately show ?thesis
    using r m unfolding t_def c_def by blast
qed

subsection \<open>Projecting a configuration into the tree widget\<close>

lemma setExpanded_sel [simp]:
  "text0 (setExpanded i b) = text0 i" "isExpanded (setExpanded i b) = b"
  "children (setExpanded i b) = children i"
  by (cases i; simp)+

lemma setText0_sel [simp]:
  "text0 (setText0 i s) = s" "isExpanded (setText0 i s) = isExpanded i"
  "children (setText0 i s) = children i"
  by (cases i; simp)+

lemma addChild_sel [simp]:
  "text0 (addChild i c) = text0 i" "isExpanded (addChild i c) = isExpanded i"
  "children (addChild i c) = children i @ [c]"
  by (cases i; simp)+

lemma new_sel [simp]:
  "text0 QTreeWidgetItem_new = []" "isExpanded QTreeWidgetItem_new = False"
  "children QTreeWidgetItem_new = []"
  by (simp_all add: QTreeWidgetItem_new_def)

text \<open>
  Filling an item keeps its text, expands it and appends to its children what filling a
  new item with the same value gives.
\<close>

lemma fill_shape:
  fixes item :: QTreeWidgetItem
  shows "\<forall>i. fillTreeItem str i v =
           QTreeWidgetItem (text0 i) True
             (children i @ children (fillTreeItem str QTreeWidgetItem_new v))"
    and "\<forall>i. fillTreeItem_keys str i kvs =
           QTreeWidgetItem (text0 i) (isExpanded i)
             (children i @ children (fillTreeItem_keys str QTreeWidgetItem_new kvs))"
    and "\<forall>i. fillTreeItem_vals str i vs =
           QTreeWidgetItem (text0 i) (isExpanded i)
             (children i @ children (fillTreeItem_vals str QTreeWidgetItem_new vs))"
proof (induct str item v and str item kvs and str item vs
    rule: fillTreeItem_fillTreeItem_keys_fillTreeItem_vals.induct)
  case (1 str item kvs)
  show ?case
  proof
    fix i
    show "fillTreeItem str i (OrderedDict kvs) =
           QTreeWidgetItem (text0 i) True
             (children i @ children (fillTreeItem str QTreeWidgetItem_new (OrderedDict kvs)))"
      using 1 [rule_format, of "setExpanded i True"]
            1 [rule_format, of "setExpanded QTreeWidgetItem_new True"]
      by simp
  qed
next
  case (2 str item kvs)
  show ?case
  proof
    fix i
    show "fillTreeItem str i (Dict kvs) =
           QTreeWidgetItem (text0 i) True
             (children i @ children (fillTreeItem str QTreeWidgetItem_new (Dict kvs)))"
      using 2 [rule_format, of "setExpanded i True"]
            2 [rule_format, of "setExpanded QTreeWidgetItem_new True"]
      by simp
  qed
next
  case (3 str item vs)
  show ?case
  proof
    fix i
    show "fillTreeItem str i (List vs) =
           QTreeWidgetItem (text0 i) True
             (children i @ children (fillTreeItem str QTreeWidgetItem_new (List vs)))"
      using 3 [rule_format, of "setExpanded i True"]
            3 [rule_format, of "setExpanded QTreeWidgetItem_new True"]
      by simp
  qed
next
  case (6 str item key v rest)
  let ?c = "fillTreeItem str (setText0 QTreeWidgetItem_new key) v"
  show ?case
  proof
    fix i
    show "fillTreeItem_keys str i ((key, v) # rest) =
           QTreeWidgetItem (text0 i) (isExpanded i)
             (children i @ children (fillTreeItem_keys str QTreeWidgetItem_new ((key, v) # rest)))"
      using 6(2) [rule_format, of "addChild i ?c"]
            6(2) [rule_format, of "addChild QTreeWidgetItem_new ?c"]
      by simp
  qed
next
  case (8 str item val rest)
  let ?c = "setExpanded
            (case val of
             Dict kvs \<Rightarrow> fillTreeItem str (setText0 QTreeWidgetItem_new ''[dict]'') val
             | OrderedDict kvs \<Rightarrow> fillTreeItem str (setText0 QTreeWidgetItem_new ''[odict]'') val
             | List vs \<Rightarrow> fillTreeItem str (setText0 QTreeWidgetItem_new ''[list]'') val
             | _ \<Rightarrow> setText0 QTreeWidgetItem_new (str val))
            True"
  show ?case
  proof
    fix i
    show "fillTreeItem_vals str i (val # rest) =
           QTreeWidgetItem (text0 i) (isExpanded i)
             (children i @ children (fillTreeItem_vals str QTreeWidgetItem_new (val # rest)))"
      using 8(4) [rule_format, of "addChild i ?c"]
            8(4) [rule_format, of "addChild QTreeWidgetItem_new ?c"]
      by simp
  qed
qed (simp_all add: QTreeWidgetItem.expand)

lemma fillTreeWidget_eq:
  "fillTreeWidget str w T =
     w\<lparr>invisibleRootItem :=
         QTreeWidgetItem (text0 (invisibleRootItem w)) True
           (children (fillTreeItem str QTreeWidgetItem_new T))\<rparr>"
proof -
  obtain t e cs where r: "invisibleRootItem w = QTreeWidgetItem t e cs"
    by (cases "invisibleRootItem w")
  show ?thesis
    using fill_shape(1) [rule_format, of str "QTreeWidgetItem t e []" T]
    by (simp add: fillTreeWidget_def clear_def r)
qed

text \<open>
  C6: projecting a configuration value \<open>T\<close> into a tree widget twice in a row gives the
  same widget as projecting it once; the items of the widget after a projection are those
  that filling a new item with \<open>T\<close> gives, so nothing of the earlier content is left
  and the items depend on \<open>T\<close> only, whatever the widget held before.
\<close>

theorem C6_fillTreeWidget_idempotent:
  "fillTreeWidget str (fillTreeWidget str w T) T = fillTreeWidget str w T
   \<and> children (invisibleRootItem (fillTreeWidget str w T)) =
       children (fillTreeItem str QTreeWidgetItem_new T)
   \<and> children (invisibleRootItem (fillTreeWidget str w' T)) =
       children (invisibleRootItem (fillTreeWidget str w T))"
  by (simp add: fillTreeWidget_eq)

theorem C6_fillTreeWidget_idempotent_witness:
  "fillTreeWidget str_example
     (fillTreeWidget str_example
        \<lparr>invisibleRootItem = QTreeWidgetItem [] False [QTreeWidgetItem ''stale'' True []]\<rparr>
        (Dict [(''global'', Dict [(''startup'', List [Scalar 7])])]))
     (Dict [(''global'', Dict [(''startup'', List [Scalar 7])])])
   = \<lparr>invisibleRootItem = QTreeWidgetItem [] True
        [QTreeWidgetItem ''global'' True
          [QTreeWidgetItem ''startup'' True [QTreeWidgetItem ''7'' True []]]]\<rparr>"
  using C6_fillTreeWidget_idempotent [of str_example
      "\<lparr>invisibleRootItem = QTreeWidgetItem [] False [QTreeWidgetItem ''stale'' True []]\<rparr>"
      "Dict [(''global'', Dict [(''startup'', List [Scalar 7])])]"]
  by (simp add: fillTreeWidget_def clear_def QTreeWidgetItem_new_def str_example_def)

lemma fillTreeItem_other:
  "\<not> exact_container v \<Longrightarrow>
   fillTreeItem str item v =
     QTreeWidgetItem (text0 item) True (children item @ [QTreeWidgetItem (str v) False []])"
  by (cases v; cases item) (simp_all add: exact_container_def QTreeWidgetItem_new_def)

lemma fillTreeItem_vals_children:
  "children (fillTreeItem_vals str item vs) =
     children item @
     map (\<lambda>val. setExpanded
            (case val of
               Dict kvs \<Rightarrow> fillTreeItem str (setText0 QTreeWidgetItem_new ''[dict]'') val
             | OrderedDict kvs \<Rightarrow> fillTreeItem str (setText0 QTreeWidgetItem_new ''[odict]'') val
             | List vs \<Rightarrow> fillTreeItem str (setText0 QTreeWidgetItem_new ''[list]'') val
             | _ \<Rightarrow> setText0 QTreeWidgetItem_new (str val))
            True) vs"
  by (induction vs arbitrary: item) simp_all

lemma list_child_other:
  "\<not> exact_container val \<Longrightarrow>
   setExpanded
     (case val of
        Dict kvs \<Rightarrow> fillTreeItem str (setText0 QTreeWidgetItem_new ''[dict]'') val
      | OrderedDict kvs \<Rightarrow> fillTreeItem str (setText0 QTreeWidgetItem_new ''[odict]'') val
      | List vs \<Rightarrow> fillTreeItem str (setText0 QTreeWidgetItem_new ''[list]'') val
      | _ \<Rightarrow> setText0 QTreeWidgetItem_new (str val))
     True = QTreeWidgetItem (str val) True []"
  by (cases val) (simp_all add: exact_container_def QTreeWidgetItem_new_def)

text \<open>
  C9: \<open>fillTreeItem\<close> descends only into values whose exact type is dict, OrderedDict or
  list. For a value of any other type (a tuple, a set, an instance of a strict subclass of
  dict or list, a scalar) it adds exactly one child, a leaf whose text is \<open>str(value)\<close>.
  In a list, every element gives one child, and for an element of any other type that
  child is a leaf with the text \<open>str(element)\<close>: no type tag and no descent.
\<close>

theorem C9_only_exact_containers_recurse:
  "(\<not> exact_container v \<longrightarrow>
      fillTreeItem str item v =
        QTreeWidgetItem (text0 item) True (children item @ [QTreeWidgetItem (str v) False []]))
   \<and> (k < length vs \<and> \<not> exact_container (vs ! k) \<longrightarrow>
        children (fillTreeItem str item (List vs)) ! (length (children item) + k) =
          QTreeWidgetItem (str (vs ! k)) True [])
   \<and> length (children (fillTreeItem str item (List vs))) = length (children item) + length vs
   \<and> \<not> exact_container (Tuple xs :: 'a pyvalue)
   \<and> \<not> exact_container (SetValue xs :: 'a pyvalue)
   \<and> \<not> exact_container (DictSubclass c kvs :: 'a pyvalue)
   \<and> \<not> exact_container (ListSubclass c xs :: 'a pyvalue)
   \<and> \<not> exact_container (Scalar a :: 'a pyvalue)"
proof (intro conjI impI)
  assume "\<not> exact_container v"
  then show "fillTreeItem str item v =
        QTreeWidgetItem (text0 item) True (children item @ [QTreeWidgetItem (str v) False []])"
    by (rule fillTreeItem_other)
next
  assume a: "k < length vs \<and> \<not> exact_container (vs ! k)"
  then show "children (fillTreeItem str item (List vs)) ! (length (children item) + k) =
          QTreeWidgetItem (str (vs ! k)) True []"
    by (simp add: fillTreeItem_vals_children list_child_other)
next
  show "length (children (fillTreeItem str item (List vs))) = length (children item) + length vs"
    by (simp add: fillTreeItem_vals_children)
qed (simp_all add: exact_container_def)

theorem C9_only_exact_containers_recurse_witness:
  "fillTreeItem str_example QTreeWidgetItem_new (Tuple [Scalar 1, Scalar 2]) =
     QTreeWidgetItem [] True [QTreeWidgetItem ''(1, 2)'' False []]
   \<and> children (fillTreeItem str_example QTreeWidgetItem_new
        (List [Dict [], DictSubclass ''Cfg'' [(''a'', Scalar 1)]])) ! 1 =
     QTreeWidgetItem ''Cfg()'' True []"
  using C9_only_exact_containers_recurse [of "Tuple [Scalar 1, Scalar 2]" str_example
      QTreeWidgetItem_new 1 "[Dict [], DictSubclass ''Cfg'' [(''a'', Scalar 1)]]"]
  by (simp add: exact_container_def str_example_def)

end
